theory Spec2Isabelle
  imports Main
begin

section \<open>The redirect rewriter of \<open>app/views/v1/routing.js\<close>\<close>

text \<open>
  The module builds a sub-router with one middleware and two POST handlers. The
  middleware replaces \<open>res.redirect\<close> by a closure over the request object and the
  method it found there; the closure prefixes a target that starts with \<open>/\<close> by
  \<open>req.baseUrl\<close> and then calls the method it replaced.

  The embedding keeps the objects in a store, because the closure reads
  \<open>req.baseUrl\<close> when it is called, not when it is created, and because the
  middleware mutates the response object in place. A JavaScript string is a
  \<open>string\<close>: concatenation is \<open>@\<close>, and \<open>startsWith\<close> compares the leading
  characters. \<open>req.baseUrl\<close> is a string in every request the host routes (the
  path the sub-router is mounted at, empty at the root).
\<close>

subsection \<open>Values, errors and objects\<close>

type_synonym addr = nat

datatype jsval = JUndefined | JNull | JBool bool | JNum int | JStr string

text \<open>
  \<open>TypeError\<close> is what \<open>url.startsWith\<close> raises when \<open>url\<close> has no such method;
  \<open>HostError\<close> is anything the host's own redirect raises.
\<close>

datatype error = TypeError | HostError string

text \<open>
  The value stored in the \<open>redirect\<close> slot of a response object. \<open>Native\<close> is the
  redirect of the host framework; \<open>Wrapped req originalRedirect\<close> is the closure
  created by the middleware, with the two variables it captures.
\<close>

datatype fn = Native | Wrapped addr fn

datatype http_method = GET | POST

record request =
  baseUrl :: string
  meth :: http_method
  path :: string

record response =
  redirect :: fn
  statusCode :: nat
  headers :: "(string \<times> string) list"
  headersSent :: bool

record ('a, 'b) heap =
  requests :: "addr \<Rightarrow> 'a request_scheme"
  responses :: "addr \<Rightarrow> 'b response_scheme"

text \<open>
  The world is the store together with the list of calls made to the host's
  redirect so far (receiver and argument of each, oldest first). The list is kept
  by the embedding; the host's redirect only sees the store.
\<close>

record ('a, 'b) world =
  heap :: "('a, 'b) heap"
  calls :: "(addr \<times> jsval) list"

type_synonym ('a, 'b) outcome = "(error + jsval) \<times> ('a, 'b) world"

type_synonym ('a, 'b) js_function =
  "addr \<Rightarrow> jsval \<Rightarrow> ('a, 'b) world \<Rightarrow> ('a, 'b) outcome"

type_synonym ('a, 'b) host_redirect =
  "addr \<Rightarrow> jsval \<Rightarrow> ('a, 'b) heap \<Rightarrow> (error + jsval) \<times> ('a, 'b) heap"

subsection \<open>The wrapped redirect\<close>

definition startsWith :: "string \<Rightarrow> string \<Rightarrow> bool" where
  "startsWith s searchString = (take (length searchString) s = searchString)"

text \<open>
  Lines 8 to 13: \<open>function (url) { if (url.startsWith('/')) { url = req.baseUrl + url; }
  return originalRedirect.call(this, url); }\<close>. A value that is not a string has no
  \<open>startsWith\<close> method, so the test raises before anything is called.
\<close>

definition wrapped_redirect ::
  "('a, 'b) js_function \<Rightarrow> addr \<Rightarrow> ('a, 'b) js_function" where
  "wrapped_redirect originalRedirect req this url w =
     (case url of
        JStr s \<Rightarrow>
          originalRedirect this
            (JStr (if startsWith s ''/'' then baseUrl (requests (heap w) req) @ s else s)) w
      | _ \<Rightarrow> (Inl TypeError, w))"

text \<open>
  Calling the host's redirect: it runs on the store, and the call is recorded
  whether it returns or raises.
\<close>

definition native_redirect :: "('a, 'b) host_redirect \<Rightarrow> ('a, 'b) js_function" where
  "native_redirect prim this url w =
     (case prim this url (heap w) of
        (r, h) \<Rightarrow> (r, w\<lparr>heap := h, calls := calls w @ [(this, url)]\<rparr>))"

primrec call_fn :: "('a, 'b) host_redirect \<Rightarrow> fn \<Rightarrow> ('a, 'b) js_function" where
  "call_fn prim Native = native_redirect prim"
| "call_fn prim (Wrapped req originalRedirect) =
     wrapped_redirect (call_fn prim originalRedirect) req"

text \<open>The method call \<open>res.redirect(url)\<close>: the slot is read, the receiver is \<open>res\<close>.\<close>

definition res_redirect :: "('a, 'b) host_redirect \<Rightarrow> ('a, 'b) js_function" where
  "res_redirect prim res url w = call_fn prim (redirect (responses (heap w) res)) res url w"

subsection \<open>The middleware and the handlers\<close>

text \<open>
  Lines 7 and 8: \<open>const originalRedirect = res.redirect; res.redirect = function ...\<close>.
\<close>

definition install :: "addr \<Rightarrow> addr \<Rightarrow> ('a, 'b) world \<Rightarrow> ('a, 'b) world" where
  "install req res w =
     (let originalRedirect = redirect (responses (heap w) res)
      in w\<lparr>heap := (heap w)\<lparr>responses := (responses (heap w))
            (res := (responses (heap w) res)\<lparr>redirect := Wrapped req originalRedirect\<rparr>)\<rparr>\<rparr>)"

text \<open>Lines 6 to 15: the assignment, then \<open>next()\<close>.\<close>

definition middleware ::
  "addr \<Rightarrow> addr \<Rightarrow> (('a, 'b) world \<Rightarrow> ('a, 'b) outcome) \<Rightarrow> ('a, 'b) world \<Rightarrow> ('a, 'b) outcome" where
  "middleware req res next w = next (install req res w)"

text \<open>
  A handler is an arrow function with a block body: it returns \<open>undefined\<close>, and an
  error raised by the call inside it goes through.
\<close>

definition discard :: "('a, 'b) outcome \<Rightarrow> ('a, 'b) outcome" where
  "discard out = (case out of (Inl e, w) \<Rightarrow> (Inl e, w) | (Inr v, w) \<Rightarrow> (Inr JUndefined, w))"

definition question_1 ::
  "('a, 'b) host_redirect \<Rightarrow> addr \<Rightarrow> addr \<Rightarrow> ('a, 'b) world \<Rightarrow> ('a, 'b) outcome" where
  "question_1 prim req res w = discard (res_redirect prim res (JStr ''/question-2'') w)"

definition question_2 ::
  "('a, 'b) host_redirect \<Rightarrow> addr \<Rightarrow> addr \<Rightarrow> ('a, 'b) world \<Rightarrow> ('a, 'b) outcome" where
  "question_2 prim req res w = discard (res_redirect prim res (JStr ''/question-1'') w)"

text \<open>
  The sub-router runs its layers in the order they were registered: the
  middleware, then the first POST route whose path matches. How the host matches
  a route path against a request path is the host's business and is the
  parameter \<open>matches\<close>; a request that no route takes leaves the sub-router.
\<close>

definition subRouter ::
  "('a, 'b) host_redirect \<Rightarrow> (string \<Rightarrow> string \<Rightarrow> bool) \<Rightarrow> addr \<Rightarrow> addr \<Rightarrow>
     ('a, 'b) world \<Rightarrow> ('a, 'b) outcome" where
  "subRouter prim matches req res w =
     middleware req res
       (\<lambda>w'. let r = requests (heap w') req in
          if meth r = POST \<and> matches ''/question-1'' (path r) then question_1 prim req res w'
          else if meth r = POST \<and> matches ''/question-2'' (path r) then question_2 prim req res w'
          else (Inr JUndefined, w')) w"

subsection \<open>A concrete request\<close>

text \<open>
  A host redirect that sets status and \<open>Location\<close> and raises once the headers
  are sent; a world with the same fresh request and response object at every
  address, the sub-router mounted at \<open>p\<close> and the request path below it \<open>q\<close>;
  and the world a first redirect leaves behind, in which the headers of
  response \<open>0\<close> are sent.
\<close>

definition example_redirect :: "(unit, unit) host_redirect" where
  "example_redirect this url h =
     (if headersSent (responses h this) then (Inl (HostError ''ERR_HTTP_HEADERS_SENT''), h)
      else case url of
        JStr s \<Rightarrow>
          (Inr JUndefined,
           h\<lparr>responses := (responses h)
               (this := (responses h this)\<lparr>statusCode := 302,
                  headers := [(''Location'', s)], headersSent := True\<rparr>)\<rparr>)
      | _ \<Rightarrow> (Inl (HostError ''ERR_INVALID_ARG_TYPE''), h))"

definition example_world :: "string \<Rightarrow> string \<Rightarrow> (unit, unit) world" where
  "example_world p q =
     \<lparr>heap = \<lparr>requests = (\<lambda>_. \<lparr>baseUrl = p, meth = POST, path = q\<rparr>),
              responses = (\<lambda>_. \<lparr>redirect = Native, statusCode = 200, headers = [],
                                headersSent = False\<rparr>)\<rparr>,
      calls = []\<rparr>"

definition example_world_sent :: "(unit, unit) world" where
  "example_world_sent =
     snd (res_redirect example_redirect 0 (JStr ''/question-2'')
            (install 0 0 (example_world ''/v1'' ''/question-1'')))"

section \<open>Properties\<close>

subsection \<open>Facts about the operations\<close>

lemma startsWith_two_slashes: "startsWith s ''//'' \<Longrightarrow> startsWith s ''/''"
  by (cases s) (auto simp: startsWith_def)

lemma startsWith_append:
  "startsWith (p @ t) ''/'' \<longleftrightarrow> (if p = [] then startsWith t ''/'' else startsWith p ''/'')"
  by (cases p) (auto simp: startsWith_def)

lemma native_redirect_calls:
  "calls (snd (native_redirect prim this url w)) = calls w @ [(this, url)]"
  by (simp add: native_redirect_def split: prod.split)

lemma native_redirect_result:
  "fst (native_redirect prim this url w) = fst (prim this url (heap w))"
  by (simp add: native_redirect_def split: prod.split)

lemma wrapped_redirect_string:
  "wrapped_redirect originalRedirect req this (JStr s) w =
     originalRedirect this
       (JStr (if startsWith s ''/'' then baseUrl (requests (heap w) req) @ s else s)) w"
  by (simp add: wrapped_redirect_def)

lemma install_requests: "requests (heap (install req res w)) = requests (heap w)"
  by (simp add: install_def)

lemma install_calls: "calls (install req res w) = calls w"
  by (simp add: install_def)

lemma install_redirect:
  "redirect (responses (heap (install req res w)) res) =
     Wrapped req (redirect (responses (heap w) res))"
  by (simp add: install_def)

lemma res_redirect_install:
  "res_redirect prim res url (install req res w) =
     wrapped_redirect (call_fn prim (redirect (responses (heap w) res))) req res url
       (install req res w)"
  by (simp add: res_redirect_def install_redirect)

text \<open>
  After one installation over the host's redirect, \<open>res.redirect(t)\<close> makes one
  call to the host; after two, the outer closure hands its result to the inner
  one, which tests and prefixes again.
\<close>

lemma single_install_calls:
  assumes "redirect (responses (heap w) res) = Native"
  shows "calls (snd (res_redirect prim res (JStr t) (install req res w))) =
           calls w @ [(res, JStr (if startsWith t ''/''
                                  then baseUrl (requests (heap w) req) @ t else t))]"
  using assms
  by (simp add: res_redirect_install wrapped_redirect_string native_redirect_calls
      install_requests install_calls)

lemma double_install_calls:
  assumes "redirect (responses (heap w) res) = Native"
  shows "calls (snd (res_redirect prim res (JStr t) (install req res (install req res w)))) =
           calls w @ [(res, JStr (let p = baseUrl (requests (heap w) req);
                                      u = (if startsWith t ''/'' then p @ t else t)
                                  in if startsWith u ''/'' then p @ u else u))]"
  using assms
  by (simp add: res_redirect_install install_redirect wrapped_redirect_string
      native_redirect_calls install_requests install_calls Let_def)

text \<open>The example world, read field by field.\<close>

lemma example_world_baseUrl: "baseUrl (requests (heap (example_world p q)) a) = p"
  by (simp add: example_world_def)

lemma example_world_meth: "meth (requests (heap (example_world p q)) a) = POST"
  by (simp add: example_world_def)

lemma example_world_path: "path (requests (heap (example_world p q)) a) = q"
  by (simp add: example_world_def)

lemma example_world_redirect: "redirect (responses (heap (example_world p q)) a) = Native"
  by (simp add: example_world_def)

lemma example_world_calls: "calls (example_world p q) = []"
  by (simp add: example_world_def)

lemma discard_calls: "calls (snd (discard out)) = calls (snd out)"
  by (simp add: discard_def split: prod.split sum.split)

text \<open>The world after a first redirect, and the example host on it.\<close>

lemma example_world_sent_redirect:
  "redirect (responses (heap example_world_sent) 0) = Wrapped 0 Native"
  by (simp add: example_world_sent_def res_redirect_def wrapped_redirect_string
      native_redirect_def example_redirect_def example_world_def install_def startsWith_def)

lemma example_world_sent_baseUrl:
  "baseUrl (requests (heap example_world_sent) a) = ''/v1''"
  by (simp add: example_world_sent_def res_redirect_def wrapped_redirect_string
      native_redirect_def example_redirect_def example_world_def install_def startsWith_def)

lemma example_world_sent_headersSent:
  "headersSent (responses (heap example_world_sent) 0)"
  by (simp add: example_world_sent_def res_redirect_def wrapped_redirect_string
      native_redirect_def example_redirect_def example_world_def install_def startsWith_def)

lemma example_world_sent_calls:
  "calls example_world_sent = [(0, JStr ''/v1/question-2'')]"
  by (simp add: example_world_sent_def res_redirect_def wrapped_redirect_string
      native_redirect_def example_redirect_def example_world_def install_def startsWith_def)

lemma example_redirect_sent:
  "headersSent (responses h this) \<Longrightarrow>
     fst (example_redirect this url h) = Inl (HostError ''ERR_HTTP_HEADERS_SENT'')"
  by (simp add: example_redirect_def)

subsection \<open>The claims\<close>

text \<open>
  C1. For every mount prefix \<open>p\<close> and every target \<open>t\<close> that begins with \<open>/\<close>, the
  wrapped redirect called with \<open>t\<close> is one call of the redirect it wraps, with
  target \<open>p @ t\<close>: its outcome is that of \<open>originalRedirect\<close> called once on
  \<open>p @ t\<close>, and when the wrapped method is the host's own, \<open>res.redirect(t)\<close> adds
  exactly the call \<open>(res, p @ t)\<close> to the calls the host has received.
\<close>

theorem wrapped_redirect_path_absolute:
  assumes "startsWith t ''/''" and "baseUrl (requests (heap w) req) = p"
  shows "wrapped_redirect originalRedirect req this (JStr t) w =
           originalRedirect this (JStr (p @ t)) w
       \<and> (redirect (responses (heap w) res) = Native \<longrightarrow>
            calls (snd (res_redirect prim res (JStr t) (install req res w))) =
              calls w @ [(res, JStr (p @ t))])"
  using assms by (simp add: wrapped_redirect_string single_install_calls)

theorem wrapped_redirect_path_absolute_witness:
  "startsWith ''/question-2'' ''/''
   \<and> baseUrl (requests (heap (example_world ''/v1'' ''/question-1'')) 0) = ''/v1''
   \<and> redirect (responses (heap (example_world ''/v1'' ''/question-1'')) 0) = Native
   \<and> calls (snd (res_redirect example_redirect 0 (JStr ''/question-2'')
               (install 0 0 (example_world ''/v1'' ''/question-1'')))) =
        [(0, JStr ''/v1/question-2'')]"
proof -
  let ?w = "example_world ''/v1'' ''/question-1''"
  have a: "startsWith ''/question-2'' ''/''"
    by (simp add: startsWith_def)
  have b: "baseUrl (requests (heap ?w) 0) = ''/v1''"
    by (simp add: example_world_baseUrl)
  have c: "redirect (responses (heap ?w) 0) = Native"
    by (simp add: example_world_redirect)
  from wrapped_redirect_path_absolute [OF a b, where res = 0 and prim = example_redirect] c
  show ?thesis using a b by (simp add: example_world_calls)
qed

text \<open>
  C2. For every mount prefix and every target \<open>t\<close> that does not begin with \<open>/\<close>
  (a full URL, the empty string), the wrapped redirect called with \<open>t\<close> is one
  call of the redirect it wraps, with target \<open>t\<close> itself.
\<close>

theorem wrapped_redirect_other_target:
  assumes "\<not> startsWith t ''/''"
  shows "wrapped_redirect originalRedirect req this (JStr t) w =
           originalRedirect this (JStr t) w
       \<and> (redirect (responses (heap w) res) = Native \<longrightarrow>
            calls (snd (res_redirect prim res (JStr t) (install req res w))) =
              calls w @ [(res, JStr t)])"
  using assms by (simp add: wrapped_redirect_string single_install_calls)

theorem wrapped_redirect_other_target_witness:
  "\<not> startsWith ''https://example.com/elsewhere'' ''/''
   \<and> redirect (responses (heap (example_world ''/v1'' ''/question-1'')) 0) = Native
   \<and> calls (snd (res_redirect example_redirect 0 (JStr ''https://example.com/elsewhere'')
               (install 0 0 (example_world ''/v1'' ''/question-1'')))) =
        [(0, JStr ''https://example.com/elsewhere'')]
   \<and> \<not> startsWith [] ''/''
   \<and> calls (snd (res_redirect example_redirect 0 (JStr [])
               (install 0 0 (example_world ''/v1'' ''/question-1'')))) = [(0, JStr [])]"
proof -
  let ?w = "example_world ''/v1'' ''/question-1''"
  have a: "\<not> startsWith ''https://example.com/elsewhere'' ''/''"
    by (simp add: startsWith_def)
  have b: "\<not> startsWith [] ''/''"
    by (simp add: startsWith_def)
  have c: "redirect (responses (heap ?w) 0) = Native"
    by (simp add: example_world_redirect)
  from wrapped_redirect_other_target [OF a, where w = ?w and res = 0 and prim = example_redirect
      and req = 0]
    wrapped_redirect_other_target [OF b, where w = ?w and res = 0 and prim = example_redirect
      and req = 0]
    c
  show ?thesis using a b by (simp add: example_world_calls)
qed

text \<open>
  C3 as stated does not hold. The second installation finds the first closure in
  the slot and wraps it, so under \<open>/v1\<close> the target \<open>/question-2\<close> reaches the host
  as \<open>/v1/v1/question-2\<close>, not as \<open>/v1/question-2\<close>.
\<close>

theorem double_install_counterexample:
  "startsWith ''/question-2'' ''/''
   \<and> baseUrl (requests (heap (example_world ''/v1'' ''/question-1'')) 0) = ''/v1''
   \<and> calls (snd (res_redirect example_redirect 0 (JStr ''/question-2'')
               (install 0 0 (install 0 0 (example_world ''/v1'' ''/question-1''))))) =
        [(0, JStr ''/v1/v1/question-2'')]
   \<and> calls (snd (res_redirect example_redirect 0 (JStr ''/question-2'')
               (install 0 0 (install 0 0 (example_world ''/v1'' ''/question-1''))))) \<noteq>
        [(0, JStr (''/v1'' @ ''/question-2''))]"
  by (simp add: res_redirect_def install_def wrapped_redirect_def native_redirect_def
      example_redirect_def example_world_def startsWith_def)

text \<open>
  C3, as the code has it. The middleware keeps no mark of having run, so
  installing it twice on the same request and response nests two closures.
  \<open>res.redirect(t)\<close> with \<open>t\<close> beginning with \<open>/\<close> still makes exactly one call to the
  host's redirect; its target is \<open>p @ p @ t\<close> when the mount prefix \<open>p\<close> begins
  with \<open>/\<close>, and \<open>p @ t\<close> only when \<open>p\<close> is empty or does not begin with \<open>/\<close>.
\<close>

theorem double_install_prefixes_again:
  assumes "startsWith t ''/''" and "baseUrl (requests (heap w) req) = p"
    and "redirect (responses (heap w) res) = Native"
  shows "calls (snd (res_redirect prim res (JStr t) (install req res (install req res w)))) =
           calls w @ [(res, JStr (if startsWith p ''/'' then p @ p @ t else p @ t))]"
proof (cases "p = []")
  case True
  with assms show ?thesis
    by (simp add: double_install_calls startsWith_def)
next
  case False
  with assms show ?thesis
    by (simp add: double_install_calls startsWith_append)
qed

theorem double_install_prefixes_again_witness:
  "startsWith ''/question-2'' ''/''
   \<and> baseUrl (requests (heap (example_world ''/v1'' ''/question-1'')) 0) = ''/v1''
   \<and> redirect (responses (heap (example_world ''/v1'' ''/question-1'')) 0) = Native
   \<and> calls (snd (res_redirect example_redirect 0 (JStr ''/question-2'')
               (install 0 0 (install 0 0 (example_world ''/v1'' ''/question-1''))))) =
        [(0, JStr ''/v1/v1/question-2'')]
   \<and> baseUrl (requests (heap (example_world [] ''/question-1'')) 0) = []
   \<and> redirect (responses (heap (example_world [] ''/question-1'')) 0) = Native
   \<and> calls (snd (res_redirect example_redirect 0 (JStr ''/question-2'')
               (install 0 0 (install 0 0 (example_world [] ''/question-1''))))) =
        [(0, JStr ''/question-2'')]"
proof -
  have a: "startsWith ''/question-2'' ''/''"
    by (simp add: startsWith_def)
  have b: "baseUrl (requests (heap (example_world ''/v1'' ''/question-1'')) 0) = ''/v1''"
    by (simp add: example_world_baseUrl)
  have c: "redirect (responses (heap (example_world ''/v1'' ''/question-1'')) 0) = Native"
    by (simp add: example_world_redirect)
  have b': "baseUrl (requests (heap (example_world [] ''/question-1'')) 0) = []"
    by (simp add: example_world_baseUrl)
  have c': "redirect (responses (heap (example_world [] ''/question-1'')) 0) = Native"
    by (simp add: example_world_redirect)
  from double_install_prefixes_again [OF a b c, where prim = example_redirect]
    double_install_prefixes_again [OF a b' c', where prim = example_redirect]
  show ?thesis using a b c b' c'
    by (simp add: example_world_calls startsWith_def)
qed

text \<open>
  C4. With the empty mount prefix the wrapped redirect hands every target to
  the redirect it wraps as it is; \<open>/question-2\<close> reaches the host as \<open>/question-2\<close>.
\<close>

theorem empty_prefix_is_identity:
  assumes "baseUrl (requests (heap w) req) = []"
  shows "wrapped_redirect originalRedirect req this (JStr t) w =
           originalRedirect this (JStr t) w
       \<and> (redirect (responses (heap w) res) = Native \<longrightarrow>
            calls (snd (res_redirect prim res (JStr t) (install req res w))) =
              calls w @ [(res, JStr t)]
          \<and> calls (snd (res_redirect prim res (JStr ''/question-2'') (install req res w))) =
              calls w @ [(res, JStr ''/question-2'')])"
  using assms by (simp add: wrapped_redirect_string single_install_calls)

theorem empty_prefix_is_identity_witness:
  "baseUrl (requests (heap (example_world [] ''/question-1'')) 0) = []
   \<and> redirect (responses (heap (example_world [] ''/question-1'')) 0) = Native
   \<and> calls (snd (res_redirect example_redirect 0 (JStr ''/question-2'')
               (install 0 0 (example_world [] ''/question-1'')))) =
        [(0, JStr ''/question-2'')]"
proof -
  have a: "baseUrl (requests (heap (example_world [] ''/question-1'')) 0) = []"
    by (simp add: example_world_baseUrl)
  have b: "redirect (responses (heap (example_world [] ''/question-1'')) 0) = Native"
    by (simp add: example_world_redirect)
  from empty_prefix_is_identity [OF a, where res = 0 and prim = example_redirect] b
  show ?thesis using a by (simp add: example_world_calls)
qed

text \<open>
  C5. Under any mount prefix \<open>p\<close>, the middleware followed by the \<open>/question-1\<close>
  handler makes one call to the host's redirect, with target \<open>p @ ''/question-2''\<close>,
  and followed by the \<open>/question-2\<close> handler one call with target
  \<open>p @ ''/question-1''\<close>; a POST whose path the first route matches runs the first
  handler, and one that only the second route matches runs the second.
\<close>

theorem handlers_redirect_under_prefix:
  assumes "baseUrl (requests (heap w) req) = p"
    and "redirect (responses (heap w) res) = Native"
  shows "calls (snd (middleware req res (question_1 prim req res) w)) =
           calls w @ [(res, JStr (p @ ''/question-2''))]
       \<and> calls (snd (middleware req res (question_2 prim req res) w)) =
           calls w @ [(res, JStr (p @ ''/question-1''))]
       \<and> (meth (requests (heap w) req) = POST
            \<and> matches ''/question-1'' (path (requests (heap w) req)) \<longrightarrow>
          subRouter prim matches req res w = middleware req res (question_1 prim req res) w)
       \<and> (meth (requests (heap w) req) = POST
            \<and> \<not> matches ''/question-1'' (path (requests (heap w) req))
            \<and> matches ''/question-2'' (path (requests (heap w) req)) \<longrightarrow>
          subRouter prim matches req res w = middleware req res (question_2 prim req res) w)"
  using assms
  by (simp add: middleware_def question_1_def question_2_def subRouter_def discard_calls
      single_install_calls install_requests startsWith_def)

theorem handlers_redirect_under_prefix_witness:
  "baseUrl (requests (heap (example_world ''/v1'' ''/question-1'')) 0) = ''/v1''
   \<and> redirect (responses (heap (example_world ''/v1'' ''/question-1'')) 0) = Native
   \<and> meth (requests (heap (example_world ''/v1'' ''/question-1'')) 0) = POST
   \<and> path (requests (heap (example_world ''/v1'' ''/question-1'')) 0) = ''/question-1''
   \<and> calls (snd (subRouter example_redirect (=) 0 0 (example_world ''/v1'' ''/question-1''))) =
        [(0, JStr ''/v1/question-2'')]
   \<and> baseUrl (requests (heap (example_world ''/v2'' ''/question-2'')) 0) = ''/v2''
   \<and> redirect (responses (heap (example_world ''/v2'' ''/question-2'')) 0) = Native
   \<and> meth (requests (heap (example_world ''/v2'' ''/question-2'')) 0) = POST
   \<and> path (requests (heap (example_world ''/v2'' ''/question-2'')) 0) = ''/question-2''
   \<and> calls (snd (subRouter example_redirect (=) 0 0 (example_world ''/v2'' ''/question-2''))) =
        [(0, JStr ''/v2/question-1'')]"
proof -
  let ?w1 = "example_world ''/v1'' ''/question-1''"
  let ?w2 = "example_world ''/v2'' ''/question-2''"
  have a1: "baseUrl (requests (heap ?w1) 0) = ''/v1''"
    and a2: "baseUrl (requests (heap ?w2) 0) = ''/v2''"
    by (simp_all add: example_world_baseUrl)
  have b1: "redirect (responses (heap ?w1) 0) = Native"
    and b2: "redirect (responses (heap ?w2) 0) = Native"
    by (simp_all add: example_world_redirect)
  have c1: "meth (requests (heap ?w1) 0) = POST" and c2: "meth (requests (heap ?w2) 0) = POST"
    by (simp_all add: example_world_meth)
  have d1: "path (requests (heap ?w1) 0) = ''/question-1''"
    and d2: "path (requests (heap ?w2) 0) = ''/question-2''"
    by (simp_all add: example_world_path)
  from handlers_redirect_under_prefix [OF a1 b1, where prim = example_redirect and matches = "(=)"]
    handlers_redirect_under_prefix [OF a2 b2, where prim = example_redirect and matches = "(=)"]
  show ?thesis using a1 a2 b1 b2 c1 c2 d1 d2
    by (simp add: example_world_calls)
qed

text \<open>
  C6. For every string target the wrapped redirect is exactly one call of the
  redirect it wraps, on the computed destination, and nothing more: result and
  world are those of that call. Over the host's redirect, the result is the
  host's result, the store is the one the host leaves, and the call list grows
  by that single call.
\<close>

theorem wrapped_redirect_calls_original_once:
  "wrapped_redirect originalRedirect req this (JStr t) w =
     originalRedirect this
       (JStr (if startsWith t ''/'' then baseUrl (requests (heap w) req) @ t else t)) w
   \<and> call_fn prim (Wrapped req Native) this (JStr t) w =
       (let url = JStr (if startsWith t ''/'' then baseUrl (requests (heap w) req) @ t else t);
            out = prim this url (heap w)
        in (fst out, w\<lparr>heap := snd out, calls := calls w @ [(this, url)]\<rparr>))"
  by (simp add: wrapped_redirect_string native_redirect_def Let_def split: prod.split)

text \<open>
  C7. Installing the rewriter changes the \<open>redirect\<close> slot of the current response
  object and nothing else: the request objects (with their \<open>baseUrl\<close>), every
  other response object, every other field of this response object and the
  calls made to the host are as before.
\<close>

theorem install_frame:
  "requests (heap (install req res w)) = requests (heap w)
   \<and> (\<forall>a. a \<noteq> res \<longrightarrow> responses (heap (install req res w)) a = responses (heap w) a)
   \<and> responses (heap (install req res w)) res =
       (responses (heap w) res)\<lparr>redirect := Wrapped req (redirect (responses (heap w) res))\<rparr>
   \<and> statusCode (responses (heap (install req res w)) res) = statusCode (responses (heap w) res)
   \<and> headers (responses (heap (install req res w)) res) = headers (responses (heap w) res)
   \<and> headersSent (responses (heap (install req res w)) res) =
       headersSent (responses (heap w) res)
   \<and> response.more (responses (heap (install req res w)) res) =
       response.more (responses (heap w) res)
   \<and> calls (install req res w) = calls w"
  by (simp add: install_def)

theorem install_frame_witness:
  "(1::nat) \<noteq> 0
   \<and> requests (heap (install 0 0 (example_world ''/v1'' ''/question-1''))) =
       requests (heap (example_world ''/v1'' ''/question-1''))
   \<and> responses (heap (install 0 0 (example_world ''/v1'' ''/question-1''))) 1 =
       responses (heap (example_world ''/v1'' ''/question-1'')) 1
   \<and> redirect (responses (heap (install 0 0 (example_world ''/v1'' ''/question-1''))) 1) = Native
   \<and> redirect (responses (heap (install 0 0 (example_world ''/v1'' ''/question-1''))) 0) =
       Wrapped 0 Native"
proof -
  let ?w = "example_world ''/v1'' ''/question-1''"
  have a: "(1::nat) \<noteq> 0"
    by simp
  from install_frame [of 0 0 ?w]
  have "requests (heap (install 0 0 ?w)) = requests (heap ?w)"
    and "\<forall>a. a \<noteq> 0 \<longrightarrow> responses (heap (install 0 0 ?w)) a = responses (heap ?w) a"
    and "responses (heap (install 0 0 ?w)) 0 =
           (responses (heap ?w) 0)\<lparr>redirect := Wrapped 0 (redirect (responses (heap ?w) 0))\<rparr>"
    by blast+
  then show ?thesis using a
    by (simp add: example_world_redirect)
qed

text \<open>
  C8. On a string target the wrapped redirect raises an error exactly when the
  redirect it wraps raises it on the computed destination, and then the same
  error: nothing is caught or changed, and the wrapper raises nothing of its own.
\<close>

theorem wrapped_redirect_propagates_errors:
  assumes "redirect (responses (heap w) res) = Wrapped req Native"
    and "url = JStr (if startsWith t ''/'' then baseUrl (requests (heap w) req) @ t else t)"
  shows "(fst (originalRedirect this url w) = Inl e \<longrightarrow>
            fst (wrapped_redirect originalRedirect req this (JStr t) w) = Inl e)
       \<and> (fst (wrapped_redirect originalRedirect req this (JStr t) w) = Inl e \<longrightarrow>
            fst (originalRedirect this url w) = Inl e)
       \<and> (fst (prim res url (heap w)) = Inl e \<longrightarrow>
            fst (res_redirect prim res (JStr t) w) = Inl e)
       \<and> (fst (res_redirect prim res (JStr t) w) = Inl e \<longrightarrow>
            fst (prim res url (heap w)) = Inl e)"
  using assms
  by (simp add: wrapped_redirect_string res_redirect_def native_redirect_result)

theorem wrapped_redirect_propagates_errors_witness:
  "redirect (responses (heap example_world_sent) 0) = Wrapped 0 Native
   \<and> fst (example_redirect 0 (JStr ''/v1/question-1'') (heap example_world_sent)) =
       Inl (HostError ''ERR_HTTP_HEADERS_SENT'')
   \<and> fst (res_redirect example_redirect 0 (JStr ''/question-1'') example_world_sent) =
       Inl (HostError ''ERR_HTTP_HEADERS_SENT'')"
proof -
  let ?w = example_world_sent
  have a: "redirect (responses (heap ?w) 0) = Wrapped 0 Native"
    by (rule example_world_sent_redirect)
  have b: "JStr ''/v1/question-1'' =
             JStr (if startsWith ''/question-1'' ''/''
                   then baseUrl (requests (heap ?w) 0) @ ''/question-1'' else ''/question-1'')"
    by (simp add: example_world_sent_baseUrl startsWith_def)
  have c: "fst (example_redirect 0 (JStr ''/v1/question-1'') (heap ?w)) =
             Inl (HostError ''ERR_HTTP_HEADERS_SENT'')"
    by (rule example_redirect_sent) (rule example_world_sent_headersSent)
  from wrapped_redirect_propagates_errors [OF a b, where prim = example_redirect
      and e = "HostError ''ERR_HTTP_HEADERS_SENT''"] c
  have "fst (res_redirect example_redirect 0 (JStr ''/question-1'') ?w) =
          Inl (HostError ''ERR_HTTP_HEADERS_SENT'')"
    by blast
  with a c show ?thesis by blast
qed

text \<open>
  C9. The target the host's redirect receives depends on the mount prefix and on
  the handler's target only: two calls of the wrapped redirect with the same
  target, in any two worlds, on any two requests with the same \<open>baseUrl\<close>, with
  any receivers and any hosts, pass the same target on.
\<close>

theorem target_is_function_of_prefix_and_target:
  assumes "baseUrl (requests (heap w1) req1) = baseUrl (requests (heap w2) req2)"
  shows "\<exists>u. calls (snd (call_fn prim1 (Wrapped req1 Native) this1 (JStr t) w1)) =
               calls w1 @ [(this1, JStr u)]
           \<and> calls (snd (call_fn prim2 (Wrapped req2 Native) this2 (JStr t) w2)) =
               calls w2 @ [(this2, JStr u)]"
  using assms by (simp add: wrapped_redirect_string native_redirect_calls)

theorem target_is_function_of_prefix_and_target_witness:
  "baseUrl (requests (heap (example_world ''/v1'' ''/question-1'')) 0) =
     baseUrl (requests (heap example_world_sent) 3)
   \<and> calls (snd (call_fn example_redirect (Wrapped 0 Native) 0 (JStr ''/question-2'')
               (example_world ''/v1'' ''/question-1''))) =
        [(0, JStr ''/v1/question-2'')]
   \<and> calls (snd (call_fn example_redirect (Wrapped 3 Native) 7 (JStr ''/question-2'')
               example_world_sent)) =
        [(0, JStr ''/v1/question-2''), (7, JStr ''/v1/question-2'')]"
proof -
  let ?w1 = "example_world ''/v1'' ''/question-1''"
  let ?w2 = example_world_sent
  have a: "baseUrl (requests (heap ?w1) 0) = baseUrl (requests (heap ?w2) 3)"
    by (simp add: example_world_baseUrl example_world_sent_baseUrl)
  have b: "calls (snd (call_fn example_redirect (Wrapped 0 Native) 0 (JStr ''/question-2'') ?w1)) =
             [(0, JStr ''/v1/question-2'')]"
    by (simp add: wrapped_redirect_string native_redirect_calls example_world_baseUrl
        example_world_calls startsWith_def)
  from target_is_function_of_prefix_and_target [OF a, where ?prim1.0 = example_redirect
      and ?this1.0 = 0 and t = "''/question-2''" and ?prim2.0 = example_redirect
      and ?this2.0 = 7]
  obtain u where
    u1: "calls (snd (call_fn example_redirect (Wrapped 0 Native) 0 (JStr ''/question-2'') ?w1)) =
           calls ?w1 @ [(0, JStr u)]"
    and u2: "calls (snd (call_fn example_redirect (Wrapped 3 Native) 7 (JStr ''/question-2'') ?w2)) =
           calls ?w2 @ [(7, JStr u)]"
    by blast
  from u1 b have "u = ''/v1/question-2''"
    by (simp add: example_world_calls)
  with u2 have "calls (snd (call_fn example_redirect (Wrapped 3 Native) 7
                  (JStr ''/question-2'') ?w2)) =
                  [(0, JStr ''/v1/question-2''), (7, JStr ''/v1/question-2'')]"
    by (simp add: example_world_sent_calls)
  with a b show ?thesis by blast
qed

text \<open>
  C10. Only the first character is tested: a target that begins with \<open>//\<close>
  (such as \<open>//example.com/x\<close>) gets the mount prefix in front, whatever the prefix.
\<close>

theorem protocol_relative_target_is_prefixed:
  assumes "startsWith t ''//''" and "baseUrl (requests (heap w) req) = p"
  shows "wrapped_redirect originalRedirect req this (JStr t) w =
           originalRedirect this (JStr (p @ t)) w
       \<and> (redirect (responses (heap w) res) = Native \<longrightarrow>
            calls (snd (res_redirect prim res (JStr t) (install req res w))) =
              calls w @ [(res, JStr (p @ t))])"
  using assms startsWith_two_slashes [of t]
  by (simp add: wrapped_redirect_string single_install_calls)

theorem protocol_relative_target_is_prefixed_witness:
  "startsWith ''//example.com/x'' ''//''
   \<and> baseUrl (requests (heap (example_world ''/v1'' ''/question-1'')) 0) = ''/v1''
   \<and> redirect (responses (heap (example_world ''/v1'' ''/question-1'')) 0) = Native
   \<and> calls (snd (res_redirect example_redirect 0 (JStr ''//example.com/x'')
               (install 0 0 (example_world ''/v1'' ''/question-1'')))) =
        [(0, JStr ''/v1//example.com/x'')]"
proof -
  let ?w = "example_world ''/v1'' ''/question-1''"
  have a: "startsWith ''//example.com/x'' ''//''"
    by (simp add: startsWith_def)
  have b: "baseUrl (requests (heap ?w) 0) = ''/v1''"
    by (simp add: example_world_baseUrl)
  have c: "redirect (responses (heap ?w) 0) = Native"
    by (simp add: example_world_redirect)
  from protocol_relative_target_is_prefixed [OF a b, where res = 0 and prim = example_redirect] c
  show ?thesis using a b by (simp add: example_world_calls)
qed

end
